theory Spec2Isabelle
  imports Complex_Main
begin

section \<open>JavaScript values at the gateway boundary\<close>

text \<open>
  A JavaScript number is \<open>NaN\<close>, an infinity or a finite value. The finite doubles are
  rationals; rounding plays no part in the handlers below, which only test a number for
  \<open>NaN\<close> and for truthiness, store it and compare it.
\<close>

datatype jsnum = NaN | PosInf | NegInf | Fin rat

text \<open>The values a JSON request body can hold, and \<open>undefined\<close> for a field that is absent.\<close>

datatype jsval =
    JUndefined
  | JNull
  | JBool bool
  | JNum jsnum
  | JStr string
  | JArr "jsval list"
  | JObj "(string \<times> jsval) list"

text \<open>\<open>isNaN\<close> on a number.\<close>

fun isNaN :: "jsnum \<Rightarrow> bool" where
  "isNaN NaN = True"
| "isNaN _ = False"

text \<open>Truthiness: \<open>NaN\<close> and both zeros are falsy; every array and object is truthy.\<close>

fun num_truthy :: "jsnum \<Rightarrow> bool" where
  "num_truthy NaN = False"
| "num_truthy (Fin r) = (r \<noteq> 0)"
| "num_truthy _ = True"

fun truthy :: "jsval \<Rightarrow> bool" where
  "truthy JUndefined = False"
| "truthy JNull = False"
| "truthy (JBool b) = b"
| "truthy (JNum n) = num_truthy n"
| "truthy (JStr s) = (s \<noteq> [])"
| "truthy (JArr _) = True"
| "truthy (JObj _) = True"

text \<open>\<open>a || b\<close> on values, and on a number with a numeric default.\<close>

definition js_or :: "jsval \<Rightarrow> jsval \<Rightarrow> jsval" where
  "js_or a b = (if truthy a then a else b)"

definition num_or :: "jsnum \<Rightarrow> jsnum \<Rightarrow> jsnum" where
  "num_or n d = (if num_truthy n then n else d)"

text \<open>
  The built-ins and the driver calls that the server uses but does not define:
  \<^item> \<open>string_to_number\<close>: what \<open>Number\<close> gives on a string, an array or an object
    (the conversions that go through the ECMAScript string grammar);
  \<^item> \<open>parse_int\<close>: \<open>parseInt\<close> on the string form of a query parameter;
  \<^item> \<open>object_id\<close>: \<open>new ObjectId(s)\<close>, \<open>None\<close> when the constructor throws;
  \<^item> \<open>fresh_oid\<close>: the \<open>_id\<close> that \<open>insertOne\<close> assigns;
  \<^item> \<open>mixed_ge\<close>: the store's comparison, as used by \<open>sort({xp: -1})\<close>, of two \<open>xp\<close>
    values that are not both finite numbers;
  \<^item> \<open>query_match\<close>: whether a stored \<open>googleId\<close> satisfies the filter
    \<open>{googleId: v}\<close> (equality for a string \<open>v\<close>);
  \<^item> \<open>clock\<close>: \<open>new Date()\<close>.
\<close>

record platform =
  string_to_number :: "jsval \<Rightarrow> jsnum"
  parse_int :: "string \<Rightarrow> jsnum"
  object_id :: "string \<Rightarrow> string option"
  fresh_oid :: "string list \<Rightarrow> string"
  mixed_ge :: "jsval \<Rightarrow> jsval \<Rightarrow> bool"
  query_match :: "jsval \<Rightarrow> jsval \<Rightarrow> bool"
  clock :: nat

text \<open>\<open>Number(v)\<close>.\<close>

fun Number :: "platform \<Rightarrow> jsval \<Rightarrow> jsnum" where
  "Number p JUndefined = NaN"
| "Number p JNull = Fin 0"
| "Number p (JBool b) = (if b then Fin 1 else Fin 0)"
| "Number p (JNum n) = n"
| "Number p v = string_to_number p v"

text \<open>\<open>parseInt(q)\<close> on a query parameter; an absent one is \<open>undefined\<close>, which gives \<open>NaN\<close>.\<close>

fun parseInt :: "platform \<Rightarrow> string option \<Rightarrow> jsnum" where
  "parseInt p None = NaN"
| "parseInt p (Some s) = parse_int p s"

text \<open>\<open>s.split(' ')\<close>: the pieces between single spaces; never an empty array.\<close>

fun split_sp :: "string \<Rightarrow> string list" where
  "split_sp [] = [[]]"
| "split_sp (c # cs) =
     (if c = CHR '' '' then [] # split_sp cs
      else (case split_sp cs of [] \<Rightarrow> [[c]] | w # ws \<Rightarrow> (c # w) # ws))"

text \<open>\<open>xs[1]\<close>: \<open>undefined\<close> (here \<open>None\<close>) on an array of length one.\<close>

fun second :: "'a list \<Rightarrow> 'a option" where
  "second (_ # y # _) = Some y"
| "second _ = None"

text \<open>\<open>h.startsWith('Bearer ')\<close>.\<close>

definition startsWith_Bearer :: "string \<Rightarrow> bool" where
  "startsWith_Bearer h = (take 7 h = ''Bearer '')"

section \<open>The document store and the responses\<close>

record user =
  uid :: string
  googleId :: jsval
  email :: jsval
  name :: jsval
  picture :: jsval
  xp :: jsval
  level :: jsval
  tasksCompleted :: jsval
  tasks :: jsval
  completedTasks :: jsval
  isOptIn :: bool
  createdAt :: nat
  updatedAt :: "nat option"

datatype store_op = OpConnect | OpFindOne | OpInsertOne | OpUpdateOne | OpFind

text \<open>
  The server's state: whether \<open>cachedDb\<close> is set, whether the database answers (a call
  on an unreachable database throws), the \<open>users\<close> collection and the log of the
  accesses made to the store.
\<close>

record server =
  cachedDb :: bool
  reachable :: bool
  docs :: "user list"
  accesses :: "store_op list"

datatype payload =
    ErrorBody string
  | MessageBody string
  | UserSummary string bool jsval jsval jsval jsval jsval
  | UserDoc user
  | Leaderboard "user list"
  | OptInBody string bool
  | HtmlError

text \<open>
  A response: its status and its body. Every body is JSON but \<open>HtmlError\<close>, the HTML page
  of the framework's default error handler.
\<close>

record response =
  status :: nat
  json :: payload

definition reply :: "nat \<Rightarrow> payload \<Rightarrow> response" where
  "reply s b = \<lparr>status = s, json = b\<rparr>"

text \<open>\<open>authenticateToken\<close>: a 401 response, or the token handed to the next handler.\<close>

definition authenticateToken :: "string option \<Rightarrow> response + string" where
  "authenticateToken authHeader =
     (case authHeader of
        None \<Rightarrow> Inl (reply 401 (ErrorBody ''Authentication required''))
      | Some h \<Rightarrow>
          if h = [] then Inl (reply 401 (ErrorBody ''Authentication required''))
          else if \<not> startsWith_Bearer h then Inl (reply 401 (ErrorBody ''Invalid token format''))
          else (case second (split_sp h) of
                  None \<Rightarrow> Inl (reply 401 (ErrorBody ''Authentication required''))
                | Some token \<Rightarrow>
                    if token = [] then Inl (reply 401 (ErrorBody ''Authentication required''))
                    else Inr token))"

text \<open>
  \<open>connectToDatabase\<close>: the cached handle when there is one, else a connection, which
  throws (\<open>None\<close>) when the database is unreachable.
\<close>

definition connectToDatabase :: "server \<Rightarrow> server option" where
  "connectToDatabase s =
     (if cachedDb s then Some s
      else if reachable s
        then Some (s\<lparr>cachedDb := True, accesses := accesses s @ [OpConnect]\<rparr>)
        else None)"

text \<open>One call on the collection: logged, and throwing when the database is unreachable.\<close>

definition store_call :: "store_op \<Rightarrow> server \<Rightarrow> server option" where
  "store_call op s =
     (if reachable s then Some (s\<lparr>accesses := accesses s @ [op]\<rparr>) else None)"

definition internal_error :: response where
  "internal_error = reply 500 (ErrorBody ''Internal server error'')"

section \<open>The handlers of the gateway\<close>

type_synonym body = "string \<rightharpoonup> jsval"

text \<open>
  What \<open>express.json()\<close> makes of the body of a request: a JSON body that does not parse,
  or the parsed object (the empty object for a request without a JSON body).
\<close>

datatype json_body = Malformed | Json body

text \<open>Reading a field of the request body: \<open>undefined\<close> when it is absent.\<close>

definition body_field :: "body \<Rightarrow> string \<Rightarrow> jsval" where
  "body_field b k = (case b k of None \<Rightarrow> JUndefined | Some v \<Rightarrow> v)"

text \<open>\<open>updateOne\<close> changes the first document that matches.\<close>

fun update_first :: "('a \<Rightarrow> bool) \<Rightarrow> ('a \<Rightarrow> 'a) \<Rightarrow> 'a list \<Rightarrow> 'a list" where
  "update_first P f [] = []"
| "update_first P f (x # xs) = (if P x then f x # xs else x # update_first P f xs)"

text \<open>What the driver writes for a field of an inserted document: \<open>null\<close> for \<open>undefined\<close>.\<close>

fun stored :: "jsval \<Rightarrow> jsval" where
  "stored JUndefined = JNull"
| "stored v = v"

text \<open>
  \<open>POST /api/users\<close>. It does not run \<open>authenticateToken\<close>; the handler reads the header
  itself.
\<close>

definition create_user :: "platform \<Rightarrow> server \<Rightarrow> string option \<Rightarrow> body \<Rightarrow> response \<times> server" where
  "create_user p s authHeader b =
     (let gid = body_field b ''googleId'';
          token = (case authHeader of None \<Rightarrow> None | Some h \<Rightarrow> second (split_sp h))
      in if (token = None \<or> token = Some []) \<or> \<not> truthy gid
         then (reply 401 (ErrorBody ''Authentication required''), s)
         else
           (case connectToDatabase s of
              None \<Rightarrow> (internal_error, s)
            | Some s1 \<Rightarrow>
               (case store_call OpFindOne s1 of
                  None \<Rightarrow> (internal_error, s1)
                | Some s2 \<Rightarrow>
                   (case find (\<lambda>u. query_match p (googleId u) gid) (docs s2) of
                      Some existingUser \<Rightarrow>
                        (reply 200 (UserSummary (uid existingUser) True
                           (xp existingUser) (level existingUser) (tasksCompleted existingUser)
                           (js_or (tasks existingUser) (JArr []))
                           (js_or (completedTasks existingUser) (JArr []))), s2)
                    | None \<Rightarrow>
                       (let newUser = \<lparr>uid = fresh_oid p (map uid (docs s2)),
                              googleId = gid,
                              email = stored (body_field b ''email''),
                              name = stored (body_field b ''name''),
                              picture = stored (body_field b ''picture''),
                              xp = js_or (body_field b ''xp'') (JNum (Fin 0)),
                              level = js_or (body_field b ''level'') (JNum (Fin 1)),
                              tasksCompleted = JNum (Fin 0),
                              tasks = JArr [],
                              completedTasks = JArr [],
                              isOptIn = False,
                              createdAt = clock p,
                              updatedAt = None\<rparr>
                        in (case store_call OpInsertOne s2 of
                              None \<Rightarrow> (internal_error, s2)
                            | Some s3 \<Rightarrow>
                                (reply 200 (UserSummary (uid newUser) False
                                   (xp newUser) (level newUser) (tasksCompleted newUser)
                                   (JArr []) (JArr [])),
                                 s3\<lparr>docs := docs s3 @ [newUser]\<rparr>)))))))"

text \<open>The three coercions of \<open>PUT /api/users/:id\<close>.\<close>

definition numXP :: "platform \<Rightarrow> body \<Rightarrow> jsnum" where
  "numXP p b = num_or (Number p (body_field b ''xp'')) (Fin 0)"

definition numTasksCompleted :: "platform \<Rightarrow> body \<Rightarrow> jsnum" where
  "numTasksCompleted p b = num_or (Number p (body_field b ''tasksCompleted'')) (Fin 0)"

definition numLevel :: "platform \<Rightarrow> body \<Rightarrow> jsnum" where
  "numLevel p b = num_or (Number p (body_field b ''level'')) (Fin 1)"

text \<open>The \<open>$set\<close> of \<open>PUT /api/users/:id\<close>.\<close>

definition set_fields :: "platform \<Rightarrow> body \<Rightarrow> user \<Rightarrow> user" where
  "set_fields p b u =
     u\<lparr>xp := JNum (numXP p b),
       tasksCompleted := JNum (numTasksCompleted p b),
       level := JNum (numLevel p b),
       tasks := js_or (body_field b ''tasks'') (JArr []),
       completedTasks := js_or (body_field b ''completedTasks'') (JArr []),
       updatedAt := Some (clock p)\<rparr>"

text \<open>\<open>PUT /api/users/:id\<close>, behind the middleware.\<close>

definition update_user_handler :: "platform \<Rightarrow> server \<Rightarrow> string \<Rightarrow> body \<Rightarrow> response \<times> server" where
  "update_user_handler p s ident b =
     (if isNaN (numXP p b) \<or> isNaN (numTasksCompleted p b) \<or> isNaN (numLevel p b)
      then (reply 400 (ErrorBody ''Invalid xp, tasksCompleted, or level value''), s)
      else
        (case connectToDatabase s of
           None \<Rightarrow> (internal_error, s)
         | Some s1 \<Rightarrow>
            (case object_id p ident of
               None \<Rightarrow> (internal_error, s1)
             | Some oid \<Rightarrow>
                (case store_call OpUpdateOne s1 of
                   None \<Rightarrow> (internal_error, s1)
                 | Some s2 \<Rightarrow>
                     if find (\<lambda>u. uid u = oid) (docs s2) = None
                     then (reply 404 (ErrorBody ''User not found''), s2)
                     else (reply 200 (MessageBody ''User updated successfully''),
                           s2\<lparr>docs := update_first (\<lambda>u. uid u = oid) (set_fields p b) (docs s2)\<rparr>)))))"

text \<open>
  The store's comparison of two \<open>xp\<close> values, \<open>xp_ge p a b\<close> for \<open>a\<close> not below \<open>b\<close>: two
  finite numbers compare by their values.
\<close>

definition xp_ge :: "platform \<Rightarrow> jsval \<Rightarrow> jsval \<Rightarrow> bool" where
  "xp_ge p a b =
     (case (a, b) of
        (JNum (Fin x), JNum (Fin y)) \<Rightarrow> y \<le> x
      | _ \<Rightarrow> mixed_ge p a b)"

text \<open>
  \<open>sort({xp: -1})\<close>: a descending insertion sort by the store's comparison. The store
  does not promise an order among equal keys; this one keeps them as they were.
\<close>

fun insert_desc :: "('a \<Rightarrow> 'a \<Rightarrow> bool) \<Rightarrow> 'a \<Rightarrow> 'a list \<Rightarrow> 'a list" where
  "insert_desc ge x [] = [x]"
| "insert_desc ge x (y # ys) = (if ge x y then x # y # ys else y # insert_desc ge x ys)"

fun sort_desc :: "('a \<Rightarrow> 'a \<Rightarrow> bool) \<Rightarrow> 'a list \<Rightarrow> 'a list" where
  "sort_desc ge [] = []"
| "sort_desc ge (x # xs) = insert_desc ge x (sort_desc ge xs)"

text \<open>A number that is a whole number, as \<open>skip\<close> and \<open>limit\<close> need.\<close>

fun whole :: "jsnum \<Rightarrow> int option" where
  "whole (Fin r) = (if r = of_int \<lfloor>r\<rfloor> then Some \<lfloor>r\<rfloor> else None)"
| "whole _ = None"

text \<open>
  \<open>.skip(offset).limit(limit).toArray()\<close>. The store rejects a skip or a limit that is
  not a whole number and a negative skip (\<open>None\<close>: the call throws); a negative limit
  is read as its absolute value and a limit of zero as no limit.
\<close>

definition page :: "jsnum \<Rightarrow> jsnum \<Rightarrow> 'a list \<Rightarrow> 'a list option" where
  "page offset limit xs =
     (case (whole offset, whole limit) of
        (Some k, Some n) \<Rightarrow>
          if k < 0 then None
          else if n = 0 then Some (drop (nat k) xs)
          else Some (take (nat \<bar>n\<bar>) (drop (nat k) xs))
      | _ \<Rightarrow> None)"

text \<open>The \<open>limit\<close> and the \<open>offset\<close> of \<open>GET /api/leaderboard\<close>.\<close>

definition limit_of :: "platform \<Rightarrow> string option \<Rightarrow> jsnum" where
  "limit_of p qlimit = num_or (parseInt p qlimit) (Fin 10)"

definition offset_of :: "platform \<Rightarrow> string option \<Rightarrow> jsnum" where
  "offset_of p qoffset = num_or (parseInt p qoffset) (Fin 0)"

text \<open>\<open>GET /api/leaderboard\<close>, behind the middleware.\<close>

definition leaderboard_handler ::
    "platform \<Rightarrow> server \<Rightarrow> string option \<Rightarrow> string option \<Rightarrow> response \<times> server" where
  "leaderboard_handler p s qlimit qoffset =
     (let limit = limit_of p qlimit;
          offset = offset_of p qoffset
      in case connectToDatabase s of
           None \<Rightarrow> (internal_error, s)
         | Some s1 \<Rightarrow>
            (case store_call OpFind s1 of
               None \<Rightarrow> (internal_error, s1)
             | Some s2 \<Rightarrow>
                (case page offset limit
                        (sort_desc (\<lambda>a b. xp_ge p (xp a) (xp b)) (filter isOptIn (docs s2))) of
                   None \<Rightarrow> (internal_error, s2)
                 | Some leaderboard \<Rightarrow> (reply 200 (Leaderboard leaderboard), s2))))"

text \<open>\<open>PUT /api/users/:id/opt-in\<close>, behind the middleware.\<close>

definition opt_in_handler :: "platform \<Rightarrow> server \<Rightarrow> string \<Rightarrow> response \<times> server" where
  "opt_in_handler p s ident =
     (case connectToDatabase s of
        None \<Rightarrow> (internal_error, s)
      | Some s1 \<Rightarrow>
         (case object_id p ident of
            None \<Rightarrow> (internal_error, s1)
          | Some oid \<Rightarrow>
             (case store_call OpFindOne s1 of
                None \<Rightarrow> (internal_error, s1)
              | Some s2 \<Rightarrow>
                 (case find (\<lambda>u. uid u = oid) (docs s2) of
                    None \<Rightarrow> (reply 404 (ErrorBody ''User not found''), s2)
                  | Some u \<Rightarrow>
                     (let newStatus = (\<not> isOptIn u)
                      in case store_call OpUpdateOne s2 of
                           None \<Rightarrow> (internal_error, s2)
                         | Some s3 \<Rightarrow>
                             (reply 200 (OptInBody ''Opt-in status updated successfully'' newStatus),
                              s3\<lparr>docs := update_first (\<lambda>u. uid u = oid)
                                                        (\<lambda>u. u\<lparr>isOptIn := newStatus\<rparr>) (docs s3)\<rparr>))))))"

text \<open>\<open>GET /api/users/:id\<close>, behind the middleware.\<close>

definition get_user_handler :: "platform \<Rightarrow> server \<Rightarrow> string \<Rightarrow> response \<times> server" where
  "get_user_handler p s ident =
     (case connectToDatabase s of
        None \<Rightarrow> (internal_error, s)
      | Some s1 \<Rightarrow>
         (case object_id p ident of
            None \<Rightarrow> (internal_error, s1)
          | Some oid \<Rightarrow>
             (case store_call OpFindOne s1 of
                None \<Rightarrow> (internal_error, s1)
              | Some s2 \<Rightarrow>
                 (case find (\<lambda>u. uid u = oid) (docs s2) of
                    None \<Rightarrow> (reply 404 (ErrorBody ''User not found''), s2)
                  | Some u \<Rightarrow> (reply 200 (UserDoc u), s2)))))"

text \<open>The five routes.\<close>

datatype endpoint =
    CreateUser
  | UpdateUser string
  | GetLeaderboard "string option" "string option"
  | ToggleOptIn string
  | GetUser string

fun protected :: "endpoint \<Rightarrow> bool" where
  "protected CreateUser = False"
| "protected _ = True"

text \<open>
  The application. \<open>express.json()\<close> is registered before the routes: a JSON body that
  does not parse ends the request with status 400 and the default error page, before any
  route or middleware sees it. Each protected route then runs \<open>authenticateToken\<close> first.
\<close>

fun app ::
    "platform \<Rightarrow> server \<Rightarrow> string option \<Rightarrow> json_body \<Rightarrow> endpoint \<Rightarrow> response \<times> server" where
  "app p s h Malformed e = (reply 400 HtmlError, s)"
| "app p s h (Json b) CreateUser = create_user p s h b"
| "app p s h (Json b) (UpdateUser ident) =
     (case authenticateToken h of Inl r \<Rightarrow> (r, s) | Inr _ \<Rightarrow> update_user_handler p s ident b)"
| "app p s h (Json b) (GetLeaderboard qlimit qoffset) =
     (case authenticateToken h of Inl r \<Rightarrow> (r, s) | Inr _ \<Rightarrow> leaderboard_handler p s qlimit qoffset)"
| "app p s h (Json b) (ToggleOptIn ident) =
     (case authenticateToken h of Inl r \<Rightarrow> (r, s) | Inr _ \<Rightarrow> opt_in_handler p s ident)"
| "app p s h (Json b) (GetUser ident) =
     (case authenticateToken h of Inl r \<Rightarrow> (r, s) | Inr _ \<Rightarrow> get_user_handler p s ident)"

text \<open>
  What the specification calls a well-formed bearer header: the header is there, starts
  with \<open>Bearer\<close> and a space, and something follows.
\<close>

definition well_formed_bearer :: "string option \<Rightarrow> bool" where
  "well_formed_bearer h =
     (case h of None \<Rightarrow> False | Some v \<Rightarrow> take 7 v = ''Bearer '' \<and> drop 7 v \<noteq> [])"

text \<open>
  What the sorting needs of the store's comparison: any two keys compare one way or the
  other, and the comparison is transitive.
\<close>

definition total_preorder :: "('a \<Rightarrow> 'a \<Rightarrow> bool) \<Rightarrow> bool" where
  "total_preorder ge = ((\<forall>a b. ge a b \<or> ge b a) \<and> (\<forall>a b c. ge a b \<longrightarrow> ge b c \<longrightarrow> ge a c))"

section \<open>The task lifecycle manager\<close>

text \<open>
  Modelled from the spec: \<open>TaskManager.js\<close> is not among the sources (only its test suite
  is), so the manager, its data and its collaborators below follow sections 3 and 4 of the
  specification. This is the pending task of the data model; the \<open>id\<close> and \<open>createdAt\<close>
  fields carry a prefix because those names are taken.
\<close>

record task =
  task_id :: string
  title :: string
  experience :: int
  deadline :: "string option"
  label :: "string option"
  task_createdAt :: string

text \<open>
  Modelled from the spec: the completed task of the data model (\<open>TaskManager.js\<close> is
  missing): every task field, and the three fields that completion adds.
\<close>

record completed_task = task +
  completedAt :: string
  earlyBonus :: int
  overduePenalty :: int

text \<open>
  Modelled from the spec: the task-creation payload that \<open>addTask\<close> of the missing
  \<open>TaskManager.js\<close> accepts: the fields of a task that the manager does not generate.
\<close>

record task_input =
  in_title :: string
  in_experience :: int
  in_deadline :: "string option"
  in_label :: "string option"

text \<open>
  Modelled from the spec: the single payload or ordered sequence of payloads that
  \<open>addTask\<close> of the missing \<open>TaskManager.js\<close> takes.
\<close>

datatype add_input = Single task_input | Batch "task_input list"

text \<open>
  Modelled from the spec: the partial task given to \<open>updateTask\<close> of the missing
  \<open>TaskManager.js\<close>: each field is named (\<open>Some\<close>) or left out (\<open>None\<close>).
\<close>

record task_patch =
  p_id :: "string option"
  p_title :: "string option"
  p_experience :: "int option"
  p_deadline :: "string option option"
  p_label :: "string option option"
  p_createdAt :: "string option"

text \<open>
  Modelled from the spec: the two call shapes of the XP Calculator that the missing
  \<open>TaskManager.js\<close> uses: a base amount with an optional deadline, or one raw delta.
\<close>

datatype xp_call = ForTask int "string option" | RawDelta int

text \<open>
  Modelled from the spec: a collection updater injected into the missing
  \<open>TaskManager.js\<close>: it applies the transformation it is given to the collection, or it
  throws an error with a message.
\<close>

datatype updater = Applies | Throws string

text \<open>
  Modelled from the spec: the collaborators of the missing \<open>TaskManager.js\<close>: the XP
  Calculator (its answer to a base amount and a deadline is the pair of early bonus and
  overdue penalty), the two updaters, the generator of identifiers (\<open>uuid k\<close> is the
  \<open>k\<close>-th identifier it hands out) and the rendering of a time as a timestamp string.
\<close>

record collaborators =
  calculateXP :: "int \<Rightarrow> string option \<Rightarrow> int \<times> int"
  setTasks :: updater
  setCompletedTasks :: updater
  uuid :: "nat \<Rightarrow> string"
  toISOString :: "nat \<Rightarrow> string"

text \<open>
  Modelled from the spec: what the operations of the missing \<open>TaskManager.js\<close> act on: the
  two collections, the messages given to the error reporter, the calls made to the XP
  Calculator, the number of celebratory effects triggered, the number of calls of each
  updater, the number of identifiers handed out and the current time.
\<close>

record world =
  pending :: "task list"
  completed :: "completed_task list"
  reported :: "string list"
  xp_calls :: "xp_call list"
  confetti :: nat
  setTasks_calls :: nat
  setCompletedTasks_calls :: nat
  issued :: nat
  now :: nat

text \<open>
  Modelled from the spec: how a step of the missing \<open>TaskManager.js\<close> ends: with an
  exception that carries a message, or normally.
\<close>

datatype outcome = Threw string world | Done world

text \<open>
  Modelled from the spec: a call of the pending-collection updater by the missing
  \<open>TaskManager.js\<close>, with a transformation of the prior collection.
\<close>

definition call_setTasks :: "collaborators \<Rightarrow> (task list \<Rightarrow> task list) \<Rightarrow> world \<Rightarrow> outcome" where
  "call_setTasks c f w =
     (let w1 = w\<lparr>setTasks_calls := setTasks_calls w + 1\<rparr>
      in case setTasks c of
           Applies \<Rightarrow> Done (w1\<lparr>pending := f (pending w1)\<rparr>)
         | Throws m \<Rightarrow> Threw m w1)"

text \<open>
  Modelled from the spec: a call of the completed-collection updater by the missing
  \<open>TaskManager.js\<close>. The transformation also says which calls of the XP Calculator it
  makes when it runs, since \<open>removeTask\<close> can look the task up only there.
\<close>

definition call_setCompletedTasks ::
    "collaborators \<Rightarrow> (completed_task list \<Rightarrow> completed_task list \<times> xp_call list) \<Rightarrow> world \<Rightarrow> outcome" where
  "call_setCompletedTasks c f w =
     (let w1 = w\<lparr>setCompletedTasks_calls := setCompletedTasks_calls w + 1\<rparr>
      in case setCompletedTasks c of
           Applies \<Rightarrow>
             Done (w1\<lparr>completed := fst (f (completed w1)),
                      xp_calls := xp_calls w1 @ snd (f (completed w1))\<rparr>)
         | Throws m \<Rightarrow> Threw m w1)"

text \<open>
  Modelled from the spec: the error policy of the missing \<open>TaskManager.js\<close>: an exception is
  caught and its message goes to the error reporter.
\<close>

fun report :: "outcome \<Rightarrow> outcome" where
  "report (Threw m w) = Done (w\<lparr>reported := reported w @ [m]\<rparr>)"
| "report (Done w) = Done w"

text \<open>
  Modelled from the spec: the entries that \<open>addTask\<close> of the missing \<open>TaskManager.js\<close> makes
  from its payloads: a fresh identifier each, the current time as \<open>createdAt\<close>, the label
  absent unless supplied, in the order of the input.
\<close>

definition new_tasks :: "collaborators \<Rightarrow> nat \<Rightarrow> nat \<Rightarrow> task_input list \<Rightarrow> task list" where
  "new_tasks c k t xs =
     map (\<lambda>(i, x). \<lparr>task_id = uuid c i, title = in_title x, experience = in_experience x,
                     deadline = in_deadline x, label = in_label x,
                     task_createdAt = toISOString c t\<rparr>)
         (enumerate k xs)"

text \<open>Modelled from the spec: the payloads of an input of \<open>addTask\<close> (\<open>TaskManager.js\<close> is missing).\<close>

fun payloads :: "add_input \<Rightarrow> task_input list" where
  "payloads (Single x) = [x]"
| "payloads (Batch xs) = xs"

text \<open>
  Modelled from the spec: \<open>addTask\<close> of the missing \<open>TaskManager.js\<close>: one call of the
  pending-collection updater, which appends the new entries.
\<close>

definition addTask :: "collaborators \<Rightarrow> add_input \<Rightarrow> world \<Rightarrow> outcome" where
  "addTask c inp w =
     report
       (let newTasks = new_tasks c (issued w) (now w) (payloads inp);
            w1 = w\<lparr>issued := issued w + length (payloads inp)\<rparr>
        in call_setTasks c (\<lambda>currentTasks. currentTasks @ newTasks) w1)"

text \<open>
  Modelled from the spec: \<open>completeTask\<close> of the missing \<open>TaskManager.js\<close>: the XP
  Calculator is asked for the bonus and the penalty, the celebratory effect is triggered,
  the task leaves the pending collection and its completed entry joins the other one.
  A task of the data model always has its experience; what the manager does with a task
  that lacks it is outside this model.
\<close>

definition completeTask :: "collaborators \<Rightarrow> task \<Rightarrow> world \<Rightarrow> outcome" where
  "completeTask c t w =
     report
       (let r = calculateXP c (experience t) (deadline t);
            w1 = w\<lparr>xp_calls := xp_calls w @ [ForTask (experience t) (deadline t)]\<rparr>;
            w2 = w1\<lparr>confetti := confetti w1 + 1\<rparr>;
            completedTask = task.extend t
              \<lparr>completedAt = toISOString c (now w), earlyBonus = fst r, overduePenalty = snd r\<rparr>
        in case call_setTasks c (filter (\<lambda>x. task_id x \<noteq> task_id t)) w2 of
             Threw m w3 \<Rightarrow> Threw m w3
           | Done w3 \<Rightarrow> call_setCompletedTasks c (\<lambda>prev. (prev @ [completedTask], [])) w3)"

text \<open>
  Modelled from the spec: \<open>removeTask\<close> of the missing \<open>TaskManager.js\<close>: a pending task is
  filtered out; a completed one is looked up, its XP is reversed through the XP
  Calculator when it is found, and it is filtered out.
\<close>

definition removeTask :: "collaborators \<Rightarrow> string \<Rightarrow> bool \<Rightarrow> world \<Rightarrow> outcome" where
  "removeTask c ident wasCompleted w =
     report
       (if wasCompleted
        then call_setCompletedTasks c
               (\<lambda>prev. (filter (\<lambda>x. task_id x \<noteq> ident) prev,
                         case find (\<lambda>x. task_id x = ident) prev of
                           None \<Rightarrow> []
                         | Some x \<Rightarrow> [RawDelta (- (experience x + earlyBonus x + overduePenalty x))]))
               w
        else call_setTasks c (filter (\<lambda>x. task_id x \<noteq> ident)) w)"

text \<open>
  Modelled from the spec: the merge that \<open>updateTask\<close> of the missing \<open>TaskManager.js\<close> makes:
  each field named by the patch takes the patch's value, the identifier stays.
\<close>

definition merge :: "task \<Rightarrow> task_patch \<Rightarrow> task" where
  "merge t u =
     t\<lparr>title := (case p_title u of None \<Rightarrow> title t | Some v \<Rightarrow> v),
       experience := (case p_experience u of None \<Rightarrow> experience t | Some v \<Rightarrow> v),
       deadline := (case p_deadline u of None \<Rightarrow> deadline t | Some v \<Rightarrow> v),
       label := (case p_label u of None \<Rightarrow> label t | Some v \<Rightarrow> v),
       task_createdAt := (case p_createdAt u of None \<Rightarrow> task_createdAt t | Some v \<Rightarrow> v)\<rparr>"

text \<open>
  Modelled from the spec: the plain spread \<open>{...existingTask, ...patch}\<close> that the
  specification names for the missing \<open>TaskManager.js\<close>, identifier included.
\<close>

definition spread :: "task \<Rightarrow> task_patch \<Rightarrow> task" where
  "spread t u =
     (merge t u)\<lparr>task_id := (case p_id u of None \<Rightarrow> task_id t | Some v \<Rightarrow> v)\<rparr>"

text \<open>
  Modelled from the spec: \<open>updateTask\<close> of the missing \<open>TaskManager.js\<close>: the pending task
  with the identifier is replaced by its merge with the patch.
\<close>

definition updateTask :: "collaborators \<Rightarrow> string \<Rightarrow> task_patch \<Rightarrow> world \<Rightarrow> outcome" where
  "updateTask c ident u w =
     report (call_setTasks c (map (\<lambda>x. if task_id x = ident then merge x u else x)) w)"

section \<open>Concrete inputs\<close>

text \<open>A platform, a store with four users and some request bodies, for the instances below.\<close>

definition num_key :: "jsval \<Rightarrow> rat" where
  "num_key v = (case v of JNum (Fin x) \<Rightarrow> x | _ \<Rightarrow> 0)"

text \<open>Reading a run of decimal digits, as \<open>parseInt\<close> does on a string of digits.\<close>

fun digits :: "nat \<Rightarrow> bool \<Rightarrow> string \<Rightarrow> nat option" where
  "digits a seen [] = (if seen then Some a else None)"
| "digits a seen (c # cs) =
     (if 48 \<le> (of_char c :: nat) \<and> (of_char c :: nat) \<le> 57
      then digits (10 * a + (of_char c - 48)) True cs
      else if seen then Some a else None)"

definition decimal :: "string \<Rightarrow> jsnum" where
  "decimal s = (case digits 0 False s of None \<Rightarrow> NaN | Some n \<Rightarrow> Fin (of_nat n))"

text \<open>An identifier is accepted when it has 24 hexadecimal digits.\<close>

definition hex24 :: "string \<Rightarrow> string option" where
  "hex24 s = (if length s = 24 \<and> list_all (\<lambda>c. c \<in> set ''0123456789abcdef'') s then Some s else None)"

definition plat0 :: platform where
  "plat0 = \<lparr>string_to_number = (\<lambda>v. NaN), parse_int = decimal, object_id = hex24,
            fresh_oid = (\<lambda>ids. ''65a000000000000000000004''),
            mixed_ge = (\<lambda>a b. num_key b \<le> num_key a),
            query_match = (=), clock = 0\<rparr>"

definition alice_id :: string where
  "alice_id = ''65a000000000000000000001''"

definition alice :: user where
  "alice = \<lparr>uid = alice_id, googleId = JStr ''g-alice'', email = JStr ''alice@example.org'',
             name = JStr ''Alice'', picture = JNull, xp = JNum (Fin 50), level = JNum (Fin 2),
             tasksCompleted = JNum (Fin 3), tasks = JArr [JStr ''t1''],
             completedTasks = JArr [JStr ''c1''], isOptIn = True, createdAt = 0,
             updatedAt = None\<rparr>"

definition bob :: user where
  "bob = alice\<lparr>uid := ''65a000000000000000000002'', googleId := JStr ''g-bob'',
               xp := JNum (Fin 70)\<rparr>"

definition carol :: user where
  "carol = alice\<lparr>uid := ''65a000000000000000000003'', googleId := JStr ''g-carol'',
                 xp := JNum (Fin 90), isOptIn := False\<rparr>"

definition dave :: user where
  "dave = alice\<lparr>uid := ''65a000000000000000000005'', googleId := JStr ''g-dave'',
                xp := JNum (Fin 60)\<rparr>"

definition srv0 :: server where
  "srv0 = \<lparr>cachedDb = False, reachable = True, docs = [alice, bob, carol, dave],
            accesses = []\<rparr>"

definition new_body :: body where
  "new_body = [''googleId'' \<mapsto> JStr ''g-erin'']"


definition xp_only :: body where
  "xp_only = [''xp'' \<mapsto> JNum (Fin 60)]"

text \<open>
  Collaborators that work and two that throw, a clock whose rendering is the epoch, a world
  with one pending and one completed task, two payloads and a patch, for the instances below.
\<close>

definition epoch :: string where
  "epoch = ''1970-01-01T00:00:00.000Z''"

definition collab0 :: collaborators where
  "collab0 = \<lparr>calculateXP = (\<lambda>e d. (10, 0)), setTasks = Applies, setCompletedTasks = Applies,
              uuid = (\<lambda>k. ''id-'' @ replicate k CHR ''a''), toISOString = (\<lambda>t. epoch)\<rparr>"

definition thrower :: collaborators where
  "thrower = collab0\<lparr>setTasks := Throws ''Test error''\<rparr>"

definition thrower2 :: collaborators where
  "thrower2 = collab0\<lparr>setCompletedTasks := Throws ''Completion error''\<rparr>"

definition task1 :: task where
  "task1 = \<lparr>task_id = ''id-'', title = ''Old Task'', experience = 100, deadline = None,
            label = None, task_createdAt = epoch\<rparr>"

definition done1 :: completed_task where
  "done1 = \<lparr>task_id = ''id-a'', title = ''Done Task'', experience = 100, deadline = None,
            label = None, task_createdAt = epoch, completedAt = epoch, earlyBonus = 10,
            overduePenalty = - 5\<rparr>"

definition world0 :: world where
  "world0 = \<lparr>pending = [task1], completed = [done1], reported = [], xp_calls = [], confetti = 0,
             setTasks_calls = 0, setCompletedTasks_calls = 0, issued = 2, now = 0\<rparr>"

definition input1 :: task_input where
  "input1 = \<lparr>in_title = ''Task 1'', in_experience = 100, in_deadline = None, in_label = None\<rparr>"


definition patch1 :: task_patch where
  "patch1 = \<lparr>p_id = Some ''other'', p_title = Some ''Updated Task'', p_experience = None,
             p_deadline = None, p_label = None, p_createdAt = None\<rparr>"

section \<open>Properties of the gateway\<close>

subsection \<open>Authentication\<close>

lemma not_well_formed_rejected:
  "\<not> well_formed_bearer h \<Longrightarrow> \<exists>m. authenticateToken h = Inl (reply 401 (ErrorBody m))"
proof (cases h)
  case None
  then show ?thesis by (auto simp: authenticateToken_def)
next
  case (Some v)
  assume nwf: "\<not> well_formed_bearer h"
  show ?thesis
  proof (cases "v = [] \<or> \<not> startsWith_Bearer v")
    case True
    with Some show ?thesis by (auto simp: authenticateToken_def)
  next
    case False
    then have pre: "take 7 v = ''Bearer ''" by (simp add: startsWith_Bearer_def)
    with nwf Some have "drop 7 v = []" by (simp add: well_formed_bearer_def)
    with pre have "v = ''Bearer ''" by (metis append_take_drop_id append_Nil2)
    with Some show ?thesis by (auto simp: authenticateToken_def startsWith_Bearer_def)
  qed
qed

lemma protected_rejected:
  assumes "protected e" and "authenticateToken h = Inl r"
  shows "app p s h (Json b) e = (r, s)"
  using assms by (cases e) simp_all

lemma create_user_no_token:
  assumes "case h of None \<Rightarrow> True | Some v \<Rightarrow> second (split_sp v) = None \<or> second (split_sp v) = Some []"
  shows "create_user p s h b = (reply 401 (ErrorBody ''Authentication required''), s)"
  using assms by (cases h) (auto simp: create_user_def Let_def)

lemma status_reply: "status (reply n b) = n"
  by (simp add: reply_def)

lemma json_reply: "json (reply n b) = b"
  by (simp add: reply_def)

lemma create_user_other_scheme:
  assumes "truthy (body_field b ''googleId'')"
  shows "status (fst (create_user p s (Some ''Basic abc'') b)) \<noteq> 401"
  using assms
  by (simp add: create_user_def Let_def internal_error_def status_reply
           split: option.splits)

text \<open>When the middleware rejects, and when it passes.\<close>

lemma authenticateToken_Inl: "authenticateToken h = Inl r \<Longrightarrow> status r = 401"
  by (auto simp: authenticateToken_def status_reply split: option.splits if_splits)

lemma authenticateToken_Inr:
  "(\<exists>tok. authenticateToken h = Inr tok) =
   (\<exists>v tok. h = Some v \<and> startsWith_Bearer v \<and> second (split_sp v) = Some tok \<and> tok \<noteq> [])"
  by (cases h) (auto simp: authenticateToken_def startsWith_Bearer_def split: option.splits)

text \<open>No handler behind the middleware answers 401 itself.\<close>

lemma num_or_not_NaN: "\<not> isNaN d \<Longrightarrow> \<not> isNaN (num_or n d)"
  by (cases n) (simp_all add: num_or_def)

lemma coerced_not_NaN:
  "\<not> isNaN (numXP p b)" "\<not> isNaN (numTasksCompleted p b)" "\<not> isNaN (numLevel p b)"
  by (simp_all add: numXP_def numTasksCompleted_def numLevel_def num_or_not_NaN)

lemma update_user_handler_status:
  "status (fst (update_user_handler p s i b)) \<in> {200, 404, 500}"
  by (simp add: update_user_handler_def coerced_not_NaN internal_error_def status_reply
           split: option.splits)

lemma leaderboard_handler_status:
  "status (fst (leaderboard_handler p s ql qo)) \<in> {200, 500}"
  by (simp add: leaderboard_handler_def Let_def internal_error_def status_reply
           split: option.splits)

lemma opt_in_handler_status:
  "status (fst (opt_in_handler p s i)) \<in> {200, 404, 500}"
  by (simp add: opt_in_handler_def Let_def internal_error_def status_reply
           split: option.splits)

lemma get_user_handler_status:
  "status (fst (get_user_handler p s i)) \<in> {200, 404, 500}"
  by (simp add: get_user_handler_def internal_error_def status_reply
           split: option.splits)

lemma protected_401:
  assumes "protected e"
  shows "(status (fst (app p s h (Json b) e)) = 401) = (\<forall>tok. authenticateToken h \<noteq> Inr tok)"
proof (cases "authenticateToken h")
  case (Inl r)
  with assms have "app p s h (Json b) e = (r, s)" by (rule protected_rejected)
  with Inl show ?thesis by (simp add: authenticateToken_Inl)
next
  case (Inr t)
  show ?thesis
  proof (cases e)
    case CreateUser
    with assms show ?thesis by simp
  next
    case (UpdateUser i)
    with Inr update_user_handler_status [of p s i b] show ?thesis by auto
  next
    case (GetLeaderboard ql qo)
    with Inr leaderboard_handler_status [of p s ql qo] show ?thesis by auto
  next
    case (ToggleOptIn i)
    with Inr opt_in_handler_status [of p s i] show ?thesis by auto
  next
    case (GetUser i)
    with Inr get_user_handler_status [of p s i] show ?thesis by auto
  qed
qed

text \<open>
  C7, as amended. A request whose JSON body does not parse is answered with status 400 and
  the default error page on every route, before its header is looked at, and the server
  state is as before. For a request whose body parses: on each of the four routes behind
  the middleware (updateUser, getUser, toggleOptIn, getLeaderboard), when the
  Authorization header is absent or is not a well-formed \<open>Bearer <token>\<close> value the answer
  is status 401 with a JSON error body, and the server state, the log of store accesses
  included, is as before; such a route answers 401 exactly when the header does not start
  with \<open>Bearer\<close> and a space or its second space-separated piece is empty. User
  creation does not run the middleware, yet it is not exempt from presenting a token:
  when the header is absent, or its second space-separated piece is absent or empty, it
  is answered with 401 and a JSON error body before any store access too. What it does
  not ask for is the \<open>Bearer\<close> scheme: with a googleId, the header \<open>Basic abc\<close> is not
  answered with 401.
\<close>

theorem bearer_token_required:
  "(status (fst (app p s h Malformed e)) = 400 \<and> json (fst (app p s h Malformed e)) = HtmlError \<and>
    snd (app p s h Malformed e) = s) \<and>
   (protected e \<longrightarrow> \<not> well_formed_bearer h \<longrightarrow>
      status (fst (app p s h (Json b) e)) = 401 \<and>
      (\<exists>m. json (fst (app p s h (Json b) e)) = ErrorBody m) \<and>
      snd (app p s h (Json b) e) = s) \<and>
   (protected e \<longrightarrow>
      (status (fst (app p s h (Json b) e)) = 401) =
      (\<not> (\<exists>v tok. h = Some v \<and> startsWith_Bearer v \<and> second (split_sp v) = Some tok \<and> tok \<noteq> []))) \<and>
   ((case h of None \<Rightarrow> True
     | Some v \<Rightarrow> second (split_sp v) = None \<or> second (split_sp v) = Some []) \<longrightarrow>
      status (fst (app p s h (Json b) CreateUser)) = 401 \<and>
      (\<exists>m. json (fst (app p s h (Json b) CreateUser)) = ErrorBody m) \<and>
      snd (app p s h (Json b) CreateUser) = s) \<and>
   (truthy (body_field b ''googleId'') \<longrightarrow>
      \<not> well_formed_bearer (Some ''Basic abc'') \<and>
      status (fst (app p s (Some ''Basic abc'') (Json b) CreateUser)) \<noteq> 401)"
proof (intro conjI impI)
  show "status (fst (app p s h Malformed e)) = 400" by (simp add: status_reply)
  show "json (fst (app p s h Malformed e)) = HtmlError" by (simp add: json_reply)
  show "snd (app p s h Malformed e) = s" by simp
next
  assume e: "protected e" and h: "\<not> well_formed_bearer h"
  from h obtain m where "authenticateToken h = Inl (reply 401 (ErrorBody m))"
    using not_well_formed_rejected by blast
  with e have a: "app p s h (Json b) e = (reply 401 (ErrorBody m), s)"
    by (rule protected_rejected)
  show "status (fst (app p s h (Json b) e)) = 401" by (simp add: a status_reply)
  show "\<exists>m. json (fst (app p s h (Json b) e)) = ErrorBody m" by (simp add: a json_reply)
  show "snd (app p s h (Json b) e) = s" by (simp add: a)
next
  assume "protected e"
  then have "(status (fst (app p s h (Json b) e)) = 401) = (\<forall>tok. authenticateToken h \<noteq> Inr tok)"
    by (rule protected_401)
  also have "\<dots> = (\<not> (\<exists>tok. authenticateToken h = Inr tok))" by blast
  finally show "(status (fst (app p s h (Json b) e)) = 401) =
      (\<not> (\<exists>v tok. h = Some v \<and> startsWith_Bearer v \<and> second (split_sp v) = Some tok \<and> tok \<noteq> []))"
    by (simp only: authenticateToken_Inr)
next
  assume "case h of None \<Rightarrow> True
     | Some v \<Rightarrow> second (split_sp v) = None \<or> second (split_sp v) = Some []"
  then have a: "create_user p s h b = (reply 401 (ErrorBody ''Authentication required''), s)"
    by (rule create_user_no_token)
  show "status (fst (app p s h (Json b) CreateUser)) = 401" by (simp add: a status_reply)
  show "\<exists>m. json (fst (app p s h (Json b) CreateUser)) = ErrorBody m" by (simp add: a json_reply)
  show "snd (app p s h (Json b) CreateUser) = s" by (simp add: a)
next
  show "\<not> well_formed_bearer (Some ''Basic abc'')" by (simp add: well_formed_bearer_def)
next
  assume "truthy (body_field b ''googleId'')"
  then show "status (fst (app p s (Some ''Basic abc'') (Json b) CreateUser)) \<noteq> 401"
    by (simp add: create_user_other_scheme)
qed

text \<open>
  An instance: the header \<open>Token\<close> is rejected on getUser and on user creation alike, and
  \<open>Basic abc\<close> passes the check of user creation.
\<close>

theorem bearer_token_required_witness:
  "protected (GetUser alice_id) \<and> \<not> well_formed_bearer (Some ''Token'') \<and>
   status (fst (app plat0 srv0 (Some ''Token'') Malformed (GetUser alice_id))) = 400 \<and>
   status (fst (app plat0 srv0 (Some ''Token'') (Json new_body) (GetUser alice_id))) = 401 \<and>
   snd (app plat0 srv0 (Some ''Token'') (Json new_body) (GetUser alice_id)) = srv0 \<and>
   second (split_sp ''Token'') = None \<and>
   status (fst (app plat0 srv0 (Some ''Token'') (Json new_body) CreateUser)) = 401 \<and>
   snd (app plat0 srv0 (Some ''Token'') (Json new_body) CreateUser) = srv0 \<and>
   truthy (body_field new_body ''googleId'') \<and>
   status (fst (app plat0 srv0 (Some ''Basic abc'') (Json new_body) CreateUser)) \<noteq> 401"
proof -
  have 1: "protected (GetUser alice_id)" by simp
  have 2: "\<not> well_formed_bearer (Some ''Token'')" by (simp add: well_formed_bearer_def)
  have 3: "second (split_sp ''Token'') = None" by simp
  have 4: "truthy (body_field new_body ''googleId'')" by (simp add: body_field_def new_body_def)
  show ?thesis
    using bearer_token_required [of plat0 srv0 "Some ''Token''" "GetUser alice_id" new_body] 1 2 3 4
    by simp
qed

text \<open>
  Against C7 as it was stated: user creation is not exempt. A creation request that has a
  googleId and no Authorization header is answered with 401, and the server state is
  untouched.
\<close>

theorem user_creation_without_header_rejected:
  "truthy (body_field new_body ''googleId'') \<and>
   app plat0 srv0 None (Json new_body) CreateUser =
     (\<lparr>status = 401, json = ErrorBody ''Authentication required''\<rparr>, srv0)"
  by (simp add: create_user_def body_field_def new_body_def reply_def)


subsection \<open>Updating a user\<close>

text \<open>
  The check \<open>isNaN(numXP) || isNaN(numTasksCompleted) || isNaN(numLevel)\<close> comes after
  \<open>|| 0\<close> and \<open>|| 1\<close> have replaced every \<open>NaN\<close>, so it never fires: the only 400 that
  the route gives is the body parser's.
\<close>

lemma update_user_400:
  "(status (fst (app p s h rb (UpdateUser i))) = 400) = (rb = Malformed)"
proof (cases rb)
  case Malformed
  then show ?thesis by (simp add: status_reply)
next
  case (Json b)
  show ?thesis
  proof (cases "authenticateToken h")
    case (Inl r)
    with Json show ?thesis by (simp add: authenticateToken_Inl)
  next
    case (Inr t)
    with Json update_user_handler_status [of p s i b] show ?thesis by auto
  qed
qed

lemma find_update_first:
  "find P xs = Some u \<Longrightarrow> P (f u) \<Longrightarrow> find P (update_first P f xs) = Some (f u)"
  by (induction xs) (auto split: if_splits)

lemma uid_set_fields: "uid (set_fields p b u) = uid u"
  by (simp add: set_fields_def)

lemma update_user_found:
  assumes "authenticateToken h = Inr tok" and "reachable s" and "object_id p i = Some oid"
    and "find (\<lambda>u. uid u = oid) (docs s) = Some u"
  shows "fst (app p s h (Json b) (UpdateUser i)) =
           reply 200 (MessageBody ''User updated successfully'')"
    and "find (\<lambda>u. uid u = oid) (docs (snd (app p s h (Json b) (UpdateUser i)))) =
           Some (set_fields p b u)"
proof -
  from assms(4) have u: "uid u = oid" by (auto dest: find_Some_iff [THEN iffD1])
  have f: "find (\<lambda>u. uid u = oid) (update_first (\<lambda>u. uid u = oid) (set_fields p b) (docs s)) =
           Some (set_fields p b u)"
    using assms(4) u by (simp add: find_update_first uid_set_fields)
  show "fst (app p s h (Json b) (UpdateUser i)) =
          reply 200 (MessageBody ''User updated successfully'')"
    using assms
    by (simp add: update_user_handler_def coerced_not_NaN connectToDatabase_def store_call_def)
  show "find (\<lambda>u. uid u = oid) (docs (snd (app p s h (Json b) (UpdateUser i)))) =
          Some (set_fields p b u)"
    using assms f
    by (simp add: update_user_handler_def coerced_not_NaN connectToDatabase_def store_call_def)
qed


text \<open>A header that the middleware lets through, and a stored user.\<close>

lemma bearer_tok: "authenticateToken (Some ''Bearer tok'') = Inr ''tok''"
  by (simp add: authenticateToken_def startsWith_Bearer_def)

lemma alice_stored:
  "reachable srv0" "object_id plat0 alice_id = Some alice_id"
  "find (\<lambda>u. uid u = alice_id) (docs srv0) = Some alice"
  by (simp_all add: srv0_def plat0_def alice_def alice_id_def hex24_def)



text \<open>
  C10. An updateUser request that reaches a stored user and whose body leaves out \<open>tasks\<close>
  or \<open>completedTasks\<close>, or gives a falsy value for it, succeeds and overwrites that field
  of the stored user with the empty array.
\<close>

theorem partial_update_erases_task_lists:
  assumes "authenticateToken h = Inr tok" and "reachable s" and "object_id p i = Some oid"
    and "find (\<lambda>u. uid u = oid) (docs s) = Some u"
  shows "fst (app p s h (Json b) (UpdateUser i)) =
           reply 200 (MessageBody ''User updated successfully'') \<and>
    (\<exists>u'. find (\<lambda>u. uid u = oid) (docs (snd (app p s h (Json b) (UpdateUser i)))) = Some u' \<and>
          (\<not> truthy (body_field b ''tasks'') \<longrightarrow> tasks u' = JArr []) \<and>
          (\<not> truthy (body_field b ''completedTasks'') \<longrightarrow> completedTasks u' = JArr []))"
proof -
  have "find (\<lambda>u. uid u = oid) (docs (snd (app p s h (Json b) (UpdateUser i)))) =
          Some (set_fields p b u)"
    using assms by (rule update_user_found(2))
  moreover have "\<not> truthy (body_field b ''tasks'') \<longrightarrow> tasks (set_fields p b u) = JArr []"
    by (simp add: set_fields_def js_or_def)
  moreover have "\<not> truthy (body_field b ''completedTasks'') \<longrightarrow>
      completedTasks (set_fields p b u) = JArr []"
    by (simp add: set_fields_def js_or_def)
  moreover have "fst (app p s h (Json b) (UpdateUser i)) =
      reply 200 (MessageBody ''User updated successfully'')"
    using assms by (rule update_user_found(1))
  ultimately show ?thesis by blast
qed

text \<open>
  An instance: Alice has one task and one completed task; an update that only carries
  \<open>xp\<close> leaves her with none.
\<close>

theorem partial_update_erases_task_lists_witness:
  "authenticateToken (Some ''Bearer tok'') = Inr ''tok'' \<and> reachable srv0 \<and>
   object_id plat0 alice_id = Some alice_id \<and>
   find (\<lambda>u. uid u = alice_id) (docs srv0) = Some alice \<and>
   tasks alice = JArr [JStr ''t1''] \<and> completedTasks alice = JArr [JStr ''c1''] \<and>
   \<not> truthy (body_field xp_only ''tasks'') \<and> \<not> truthy (body_field xp_only ''completedTasks'') \<and>
   status (fst (app plat0 srv0 (Some ''Bearer tok'') (Json xp_only) (UpdateUser alice_id))) = 200 \<and>
   (\<exists>u'. find (\<lambda>u. uid u = alice_id)
            (docs (snd (app plat0 srv0 (Some ''Bearer tok'') (Json xp_only) (UpdateUser alice_id)))) =
          Some u' \<and>
         tasks u' = JArr [] \<and> completedTasks u' = JArr [])"
proof -
  have t: "tasks alice = JArr [JStr ''t1'']" "completedTasks alice = JArr [JStr ''c1'']"
    "\<not> truthy (body_field xp_only ''tasks'')" "\<not> truthy (body_field xp_only ''completedTasks'')"
    by (simp_all add: alice_def body_field_def xp_only_def)
  from partial_update_erases_task_lists [OF bearer_tok alice_stored, of xp_only]
  show ?thesis using bearer_tok alice_stored t by (auto simp: status_reply)
qed


subsection \<open>The leaderboard\<close>

lemma xp_ge_numbers: "xp_ge p (JNum (Fin x)) (JNum (Fin y)) = (y \<le> x)"
  by (simp add: xp_ge_def)

lemma xp_ge_mixed:
  "\<not> (\<exists>x y. a = JNum (Fin x) \<and> b = JNum (Fin y)) \<Longrightarrow> xp_ge p a b = mixed_ge p a b"
  by (cases a; cases b) (auto simp: xp_ge_def split: jsnum.splits)

lemma set_insert_desc: "set (insert_desc ge x xs) = insert x (set xs)"
  by (induction xs) auto

lemma set_sort_desc: "set (sort_desc ge xs) = set xs"
  by (induction xs) (simp_all add: set_insert_desc)

lemma sorted_insert_desc:
  assumes total: "\<And>a b. ge a b \<or> ge b a" and trans: "\<And>a b c. ge a b \<Longrightarrow> ge b c \<Longrightarrow> ge a c"
  shows "sorted_wrt ge xs \<Longrightarrow> sorted_wrt ge (insert_desc ge x xs)"
proof (induction xs)
  case Nil
  then show ?case by simp
next
  case (Cons y ys)
  show ?case
  proof (cases "ge x y")
    case True
    with Cons.prems show ?thesis by (auto intro: trans)
  next
    case False
    with total have "ge y x" by blast
    with False Cons show ?thesis by (auto simp: set_insert_desc)
  qed
qed

lemma sorted_sort_desc:
  assumes "\<And>a b. ge a b \<or> ge b a" and "\<And>a b c. ge a b \<Longrightarrow> ge b c \<Longrightarrow> ge a c"
  shows "sorted_wrt ge (sort_desc ge xs)"
  by (induction xs) (simp_all add: sorted_insert_desc [OF assms])

lemma page_Some:
  assumes "page offset limit xs = Some ys"
  shows "set ys \<subseteq> set xs" and "sorted_wrt R xs \<Longrightarrow> sorted_wrt R ys"
proof -
  from assms obtain k n where
    ys: "ys = drop (nat k) xs \<or> ys = take (nat \<bar>n\<bar>) (drop (nat k) xs)"
    by (auto simp: page_def split: option.splits if_splits)
  then show "set ys \<subseteq> set xs"
    by (auto dest: in_set_takeD in_set_dropD)
  assume "sorted_wrt R xs"
  with ys show "sorted_wrt R ys"
    by (auto intro: sorted_wrt_take sorted_wrt_drop)
qed

lemma page_whole:
  "0 < n \<Longrightarrow> page (Fin (of_nat k)) (Fin (of_nat n)) xs = Some (take n (drop k xs))"
  by (simp add: page_def)

lemma limit_of_None: "limit_of p None = Fin (of_nat 10)"
  by (simp add: limit_of_def num_or_def)

lemma offset_of_None: "offset_of p None = Fin (of_nat 0)"
  by (simp add: offset_of_def num_or_def)

lemma limit_of_Some:
  "parse_int p ls = Fin (of_nat n) \<Longrightarrow> 0 < n \<Longrightarrow> limit_of p (Some ls) = Fin (of_nat n)"
  by (simp add: limit_of_def num_or_def)

lemma offset_of_Some:
  "parse_int p os = Fin (of_nat k) \<Longrightarrow> offset_of p (Some os) = Fin (of_nat k)"
  by (simp add: offset_of_def num_or_def)

lemma leaderboard_handler_page:
  assumes "json (fst (leaderboard_handler p s ql qo)) = Leaderboard L"
  shows "page (offset_of p qo) (limit_of p ql)
           (sort_desc (\<lambda>a b. xp_ge p (xp a) (xp b)) (filter isOptIn (docs s))) = Some L"
  using assms
  by (auto simp: leaderboard_handler_def Let_def internal_error_def json_reply
        connectToDatabase_def store_call_def split: option.splits if_splits)

lemma app_leaderboard_page:
  assumes "json (fst (app p s h rb (GetLeaderboard ql qo))) = Leaderboard L"
  shows "page (offset_of p qo) (limit_of p ql)
           (sort_desc (\<lambda>a b. xp_ge p (xp a) (xp b)) (filter isOptIn (docs s))) = Some L"
proof (cases rb)
  case Malformed
  with assms show ?thesis by (simp add: json_reply)
next
  case (Json b)
  show ?thesis
  proof (cases "authenticateToken h")
    case (Inl r)
    then have "r = reply 401 (ErrorBody ''Authentication required'') \<or>
               r = reply 401 (ErrorBody ''Invalid token format'')"
      by (auto simp: authenticateToken_def split: option.splits if_splits)
    with Inl Json assms show ?thesis by (auto simp: json_reply)
  next
    case (Inr t)
    with Json assms show ?thesis by (simp add: leaderboard_handler_page)
  qed
qed

lemma leaderboard_paged:
  assumes "authenticateToken h = Inr tok" and "reachable s"
    and "limit_of p ql = Fin (of_nat n)" and "0 < n" and "offset_of p qo = Fin (of_nat k)"
  shows "fst (app p s h (Json b) (GetLeaderboard ql qo)) =
     reply 200 (Leaderboard (take n (drop k
       (sort_desc (\<lambda>a b. xp_ge p (xp a) (xp b)) (filter isOptIn (docs s))))))"
  using assms
  by (simp add: leaderboard_handler_def page_whole connectToDatabase_def store_call_def)

text \<open>
  C9. Whatever sequence a getLeaderboard request returns holds only stored users whose
  opt-in flag is true and is sorted by \<open>xp\<close> in descending order by the store's
  comparison (taken to be a total preorder); in particular numeric \<open>xp\<close> values never
  increase along it. On a store that answers, an authenticated request gets the page of
  the sorted opted-in users that its parameters ask for: \<open>limit\<close> entries after skipping
  \<open>offset\<close>, where an absent \<open>limit\<close> is read as 10 and an absent \<open>offset\<close> as 0.
\<close>

theorem leaderboard_opted_in_sorted_paged:
  assumes order: "total_preorder (xp_ge p)"
  shows "(json (fst (app p s h rb (GetLeaderboard ql qo))) = Leaderboard L \<longrightarrow>
            (\<forall>u \<in> set L. isOptIn u \<and> u \<in> set (docs s)) \<and>
            sorted_wrt (\<lambda>a b. xp_ge p (xp a) (xp b)) L \<and>
            (\<forall>i j x y. i < j \<longrightarrow> j < length L \<longrightarrow>
               xp (L ! i) = JNum (Fin x) \<longrightarrow> xp (L ! j) = JNum (Fin y) \<longrightarrow> y \<le> x)) \<and>
         (authenticateToken h = Inr tok \<longrightarrow> reachable s \<longrightarrow>
            fst (app p s h (Json b) (GetLeaderboard None None)) =
              reply 200 (Leaderboard (take 10
                (sort_desc (\<lambda>a b. xp_ge p (xp a) (xp b)) (filter isOptIn (docs s))))) \<and>
            (parse_int p ls = Fin (of_nat n) \<longrightarrow> 0 < n \<longrightarrow>
               fst (app p s h (Json b) (GetLeaderboard (Some ls) None)) =
                 reply 200 (Leaderboard (take n
                   (sort_desc (\<lambda>a b. xp_ge p (xp a) (xp b)) (filter isOptIn (docs s)))))) \<and>
            (parse_int p os = Fin (of_nat k) \<longrightarrow>
               fst (app p s h (Json b) (GetLeaderboard None (Some os))) =
                 reply 200 (Leaderboard (take 10 (drop k
                   (sort_desc (\<lambda>a b. xp_ge p (xp a) (xp b)) (filter isOptIn (docs s))))))) \<and>
            (parse_int p ls = Fin (of_nat n) \<longrightarrow> 0 < n \<longrightarrow> parse_int p os = Fin (of_nat k) \<longrightarrow>
               fst (app p s h (Json b) (GetLeaderboard (Some ls) (Some os))) =
                 reply 200 (Leaderboard (take n (drop k
                   (sort_desc (\<lambda>a b. xp_ge p (xp a) (xp b)) (filter isOptIn (docs s))))))))"
proof (intro conjI impI)
  let ?ge = "\<lambda>a b. xp_ge p (xp a) (xp b)"
  from order have total: "\<forall>a b. xp_ge p a b \<or> xp_ge p b a"
    and trans: "\<forall>a b c. xp_ge p a b \<longrightarrow> xp_ge p b c \<longrightarrow> xp_ge p a c"
    unfolding total_preorder_def by blast+
  assume "json (fst (app p s h rb (GetLeaderboard ql qo))) = Leaderboard L"
  then have pg: "page (offset_of p qo) (limit_of p ql) (sort_desc ?ge (filter isOptIn (docs s))) = Some L"
    by (rule app_leaderboard_page)
  from page_Some(1) [OF pg] show "\<forall>u \<in> set L. isOptIn u \<and> u \<in> set (docs s)"
    by (auto simp: set_sort_desc)
  have "sorted_wrt ?ge (sort_desc ?ge (filter isOptIn (docs s)))"
  proof (rule sorted_sort_desc)
    show "\<And>a b. ?ge a b \<or> ?ge b a" using total by blast
    show "\<And>a b c. ?ge a b \<Longrightarrow> ?ge b c \<Longrightarrow> ?ge a c" using trans by blast
  qed
  with page_Some(2) [OF pg] show sorted: "sorted_wrt ?ge L" by blast
  show "\<forall>i j x y. i < j \<longrightarrow> j < length L \<longrightarrow>
      xp (L ! i) = JNum (Fin x) \<longrightarrow> xp (L ! j) = JNum (Fin y) \<longrightarrow> y \<le> x"
  proof (intro allI impI)
    fix i j x y
    assume "i < j" and "j < length L" and x: "xp (L ! i) = JNum (Fin x)"
      and y: "xp (L ! j) = JNum (Fin y)"
    from sorted \<open>i < j\<close> \<open>j < length L\<close> have "xp_ge p (xp (L ! i)) (xp (L ! j))"
      unfolding sorted_wrt_iff_nth_less by blast
    then have "xp_ge p (JNum (Fin x)) (JNum (Fin y))" unfolding x y .
    then show "y \<le> x" by (simp add: xp_ge_numbers)
  qed
next
  assume a: "authenticateToken h = Inr tok" and r: "reachable s"
  from leaderboard_paged [OF a r limit_of_None _ offset_of_None, where b = b]
  show "fst (app p s h (Json b) (GetLeaderboard None None)) =
      reply 200 (Leaderboard (take 10
        (sort_desc (\<lambda>a b. xp_ge p (xp a) (xp b)) (filter isOptIn (docs s)))))"
    by simp
next
  assume a: "authenticateToken h = Inr tok" and r: "reachable s"
    and l: "parse_int p ls = Fin (of_nat n)" and n: "0 < n"
  from leaderboard_paged [OF a r limit_of_Some [OF l n] n offset_of_None, where b = b]
  show "fst (app p s h (Json b) (GetLeaderboard (Some ls) None)) =
      reply 200 (Leaderboard (take n
        (sort_desc (\<lambda>a b. xp_ge p (xp a) (xp b)) (filter isOptIn (docs s)))))"
    by simp
next
  assume a: "authenticateToken h = Inr tok" and r: "reachable s"
    and k: "parse_int p os = Fin (of_nat k)"
  from leaderboard_paged [OF a r limit_of_None _ offset_of_Some [OF k], where b = b]
  show "fst (app p s h (Json b) (GetLeaderboard None (Some os))) =
      reply 200 (Leaderboard (take 10 (drop k
        (sort_desc (\<lambda>a b. xp_ge p (xp a) (xp b)) (filter isOptIn (docs s))))))"
    by simp
next
  assume a: "authenticateToken h = Inr tok" and r: "reachable s"
    and l: "parse_int p ls = Fin (of_nat n)" and n: "0 < n"
    and k: "parse_int p os = Fin (of_nat k)"
  from leaderboard_paged [OF a r limit_of_Some [OF l n] n offset_of_Some [OF k], where b = b]
  show "fst (app p s h (Json b) (GetLeaderboard (Some ls) (Some os))) =
      reply 200 (Leaderboard (take n (drop k
        (sort_desc (\<lambda>a b. xp_ge p (xp a) (xp b)) (filter isOptIn (docs s))))))"
    by simp
qed

text \<open>The comparison and the sorted opted-in users of the concrete store.\<close>

lemma xp_ge_plat0: "xp_ge plat0 a b = (num_key b \<le> num_key a)"
proof (cases "\<exists>x y. a = JNum (Fin x) \<and> b = JNum (Fin y)")
  case True
  then show ?thesis by (auto simp: xp_ge_numbers num_key_def)
next
  case False
  then have "xp_ge plat0 a b = mixed_ge plat0 a b" by (rule xp_ge_mixed)
  then show ?thesis by (simp add: plat0_def)
qed

lemma sorted_opted_in:
  "sort_desc (\<lambda>a b. xp_ge plat0 (xp a) (xp b)) (filter isOptIn (docs srv0)) = [bob, dave, alice]"
  by (simp add: srv0_def xp_ge_plat0 num_key_def alice_def bob_def carol_def dave_def)

text \<open>
  An instance: of Alice (50 xp), Bob (70 xp), Carol (90 xp, not opted in) and Dave
  (60 xp), the leaderboard is Bob, Dave, Alice, and its page of one entry after skipping
  one is Dave.
\<close>

theorem leaderboard_opted_in_sorted_paged_witness:
  "total_preorder (xp_ge plat0) \<and>
   authenticateToken (Some ''Bearer tok'') = Inr ''tok'' \<and> reachable srv0 \<and>
   parse_int plat0 ''1'' = Fin (of_nat 1) \<and>
   fst (app plat0 srv0 (Some ''Bearer tok'') (Json Map.empty) (GetLeaderboard None None)) =
     reply 200 (Leaderboard [bob, dave, alice]) \<and>
   fst (app plat0 srv0 (Some ''Bearer tok'') (Json Map.empty) (GetLeaderboard (Some ''1'') (Some ''1''))) =
     reply 200 (Leaderboard [dave]) \<and>
   isOptIn bob \<and> isOptIn dave \<and> isOptIn alice \<and> \<not> isOptIn carol \<and>
   xp bob = JNum (Fin 70) \<and> xp dave = JNum (Fin 60) \<and> xp alice = JNum (Fin 50)"
proof -
  have o: "total_preorder (xp_ge plat0)"
    by (auto simp: total_preorder_def xp_ge_plat0)
  have d: "parse_int plat0 ''1'' = Fin (of_nat 1)"
    by (simp add: plat0_def decimal_def)
  have b: "isOptIn bob" "isOptIn dave" "isOptIn alice" "\<not> isOptIn carol"
    "xp bob = JNum (Fin 70)" "xp dave = JNum (Fin 60)" "xp alice = JNum (Fin 50)"
    by (simp_all add: alice_def bob_def carol_def dave_def)
  from leaderboard_opted_in_sorted_paged [OF o,
      of srv0 "Some ''Bearer tok''" "Json Map.empty" None None "[bob, dave, alice]"
         "''tok''" Map.empty "''1''" 1 "''1''" 1]
  show ?thesis using o bearer_tok alice_stored(1) d b sorted_opted_in by simp
qed

section \<open>Properties of the task lifecycle manager\<close>

subsection \<open>Adding tasks\<close>






subsection \<open>Removing a completed task\<close>

lemma find_distinct_id:
  "t \<in> set xs \<Longrightarrow> distinct (map task_id xs) \<Longrightarrow> find (\<lambda>x. task_id x = task_id t) xs = Some t"
  by (induction xs) (auto simp: rev_image_eqI)

text \<open>
  C2. For a task of the completed collection (whose identifiers are distinct) and a
  working updater, \<open>removeTask\<close> with the task's identifier and the completed flag calls
  the XP Calculator once, with the raw delta \<open>-(experience + earlyBonus + overduePenalty)\<close>,
  and filters the task out of the completed collection.
\<close>

theorem removeTask_completed_reverses_xp:
  assumes "setCompletedTasks c = Applies" and "t \<in> set (completed w)"
    and "distinct (map task_id (completed w))"
  shows "\<exists>w'. removeTask c (task_id t) True w = Done w' \<and>
           xp_calls w' = xp_calls w @ [RawDelta (- (experience t + earlyBonus t + overduePenalty t))] \<and>
           completed w' = filter (\<lambda>x. task_id x \<noteq> task_id t) (completed w) \<and>
           t \<notin> set (completed w') \<and> pending w' = pending w"
  using assms
  by (simp add: removeTask_def call_setCompletedTasks_def Let_def find_distinct_id)

text \<open>An instance: experience 100, early bonus 10 and overdue penalty -5 give the delta -105.\<close>

theorem removeTask_completed_reverses_xp_witness:
  "setCompletedTasks collab0 = Applies \<and> done1 \<in> set (completed world0) \<and>
   distinct (map task_id (completed world0)) \<and>
   experience done1 = 100 \<and> earlyBonus done1 = 10 \<and> overduePenalty done1 = - 5 \<and>
   (\<exists>w'. removeTask collab0 (task_id done1) True world0 = Done w' \<and>
         xp_calls w' = [RawDelta (- 105)] \<and> completed w' = [])"
proof -
  have a: "setCompletedTasks collab0 = Applies" by (simp add: collab0_def)
  have w: "done1 \<in> set (completed world0)" "distinct (map task_id (completed world0))"
    "completed world0 = [done1]" "xp_calls world0 = []"
    by (simp_all add: world0_def)
  have d: "experience done1 = 100" "earlyBonus done1 = 10" "overduePenalty done1 = - 5"
    by (simp_all add: done1_def)
  from removeTask_completed_reverses_xp [OF a w(1) w(2)]
  show ?thesis using a w d by auto
qed

subsection \<open>Updating a task\<close>

lemma merge_spread: "merge x u = (spread x u)\<lparr>task_id := task_id x\<rparr>"
  by (simp add: spread_def merge_def)

lemma spread_same_id: "p_id u = None \<or> p_id u = Some (task_id x) \<Longrightarrow> spread x u = merge x u"
  by (auto simp: spread_def merge_def)

text \<open>
  C5. With a working updater, \<open>updateTask\<close> replaces each pending task that has the
  identifier by the spread of the task and the patch with the identifier put back: a
  field named by the patch takes the patch's value, a field it does not name is
  untouched, and the identifier stays whatever the patch holds (so the result is the
  plain spread when the patch names no other identifier). Every other task is as
  before, and when no pending task has the identifier the collection is unchanged.
\<close>

theorem updateTask_merges_fields:
  assumes "setTasks c = Applies"
  shows "\<exists>w'. updateTask c i u w = Done w' \<and>
           length (pending w') = length (pending w) \<and>
           (\<forall>k < length (pending w).
              (task_id (pending w ! k) = i \<longrightarrow>
                 pending w' ! k = (spread (pending w ! k) u)\<lparr>task_id := i\<rparr> \<and>
                 task_id (pending w' ! k) = i \<and>
                 title (pending w' ! k) =
                   (case p_title u of None \<Rightarrow> title (pending w ! k) | Some v \<Rightarrow> v) \<and>
                 experience (pending w' ! k) =
                   (case p_experience u of None \<Rightarrow> experience (pending w ! k) | Some v \<Rightarrow> v) \<and>
                 deadline (pending w' ! k) =
                   (case p_deadline u of None \<Rightarrow> deadline (pending w ! k) | Some v \<Rightarrow> v) \<and>
                 label (pending w' ! k) =
                   (case p_label u of None \<Rightarrow> label (pending w ! k) | Some v \<Rightarrow> v) \<and>
                 task_createdAt (pending w' ! k) =
                   (case p_createdAt u of None \<Rightarrow> task_createdAt (pending w ! k) | Some v \<Rightarrow> v) \<and>
                 (p_id u = None \<or> p_id u = Some i \<longrightarrow>
                    pending w' ! k = spread (pending w ! k) u)) \<and>
              (task_id (pending w ! k) \<noteq> i \<longrightarrow> pending w' ! k = pending w ! k)) \<and>
           (i \<notin> task_id ` set (pending w) \<longrightarrow> pending w' = pending w) \<and>
           completed w' = completed w"
proof -
  let ?f = "\<lambda>x. if task_id x = i then merge x u else x"
  let ?w' = "w\<lparr>setTasks_calls := setTasks_calls w + 1, pending := map ?f (pending w)\<rparr>"
  have r: "updateTask c i u w = Done ?w'"
    using assms by (simp add: updateTask_def call_setTasks_def Let_def)
  have l: "length (pending ?w') = length (pending w)" "completed ?w' = completed w"
    by simp_all
  have m: "\<And>x. task_id x = i \<Longrightarrow>
      merge x u = (spread x u)\<lparr>task_id := i\<rparr> \<and>
      task_id (merge x u) = i \<and>
      title (merge x u) = (case p_title u of None \<Rightarrow> title x | Some v \<Rightarrow> v) \<and>
      experience (merge x u) = (case p_experience u of None \<Rightarrow> experience x | Some v \<Rightarrow> v) \<and>
      deadline (merge x u) = (case p_deadline u of None \<Rightarrow> deadline x | Some v \<Rightarrow> v) \<and>
      label (merge x u) = (case p_label u of None \<Rightarrow> label x | Some v \<Rightarrow> v) \<and>
      task_createdAt (merge x u) = (case p_createdAt u of None \<Rightarrow> task_createdAt x | Some v \<Rightarrow> v) \<and>
      (p_id u = None \<or> p_id u = Some i \<longrightarrow> merge x u = spread x u)"
    by (auto simp: merge_def spread_def)
  have n: "i \<notin> task_id ` set (pending w) \<longrightarrow> pending ?w' = pending w"
    by (auto intro!: map_idI)
  have k: "\<forall>k < length (pending w).
      (task_id (pending w ! k) = i \<longrightarrow>
         pending ?w' ! k = (spread (pending w ! k) u)\<lparr>task_id := i\<rparr> \<and>
         task_id (pending ?w' ! k) = i \<and>
         title (pending ?w' ! k) =
           (case p_title u of None \<Rightarrow> title (pending w ! k) | Some v \<Rightarrow> v) \<and>
         experience (pending ?w' ! k) =
           (case p_experience u of None \<Rightarrow> experience (pending w ! k) | Some v \<Rightarrow> v) \<and>
         deadline (pending ?w' ! k) =
           (case p_deadline u of None \<Rightarrow> deadline (pending w ! k) | Some v \<Rightarrow> v) \<and>
         label (pending ?w' ! k) =
           (case p_label u of None \<Rightarrow> label (pending w ! k) | Some v \<Rightarrow> v) \<and>
         task_createdAt (pending ?w' ! k) =
           (case p_createdAt u of None \<Rightarrow> task_createdAt (pending w ! k) | Some v \<Rightarrow> v) \<and>
         (p_id u = None \<or> p_id u = Some i \<longrightarrow>
            pending ?w' ! k = spread (pending w ! k) u)) \<and>
      (task_id (pending w ! k) \<noteq> i \<longrightarrow> pending ?w' ! k = pending w ! k)"
  proof (intro allI impI)
    fix k assume kl: "k < length (pending w)"
    show "(task_id (pending w ! k) = i \<longrightarrow>
         pending ?w' ! k = (spread (pending w ! k) u)\<lparr>task_id := i\<rparr> \<and>
         task_id (pending ?w' ! k) = i \<and>
         title (pending ?w' ! k) =
           (case p_title u of None \<Rightarrow> title (pending w ! k) | Some v \<Rightarrow> v) \<and>
         experience (pending ?w' ! k) =
           (case p_experience u of None \<Rightarrow> experience (pending w ! k) | Some v \<Rightarrow> v) \<and>
         deadline (pending ?w' ! k) =
           (case p_deadline u of None \<Rightarrow> deadline (pending w ! k) | Some v \<Rightarrow> v) \<and>
         label (pending ?w' ! k) =
           (case p_label u of None \<Rightarrow> label (pending w ! k) | Some v \<Rightarrow> v) \<and>
         task_createdAt (pending ?w' ! k) =
           (case p_createdAt u of None \<Rightarrow> task_createdAt (pending w ! k) | Some v \<Rightarrow> v) \<and>
         (p_id u = None \<or> p_id u = Some i \<longrightarrow>
            pending ?w' ! k = spread (pending w ! k) u)) \<and>
      (task_id (pending w ! k) \<noteq> i \<longrightarrow> pending ?w' ! k = pending w ! k)"
    proof (cases "task_id (pending w ! k) = i")
      case True
      with kl have e: "pending ?w' ! k = merge (pending w ! k) u" by simp
      show ?thesis unfolding e using m [OF True] True by blast
    next
      case False
      with kl have e: "pending ?w' ! k = pending w ! k" by simp
      show ?thesis unfolding e using False by blast
    qed
  qed
  from r l n k show ?thesis by blast
qed

text \<open>
  An instance: a patch with a new title and another identifier changes the title only;
  on an identifier the collection does not hold, nothing changes.
\<close>

theorem updateTask_merges_fields_witness:
  "setTasks collab0 = Applies \<and> task_id task1 = ''id-'' \<and> p_id patch1 = Some ''other'' \<and>
   (\<exists>w'. updateTask collab0 ''id-'' patch1 world0 = Done w' \<and>
         pending w' = [task1\<lparr>title := ''Updated Task''\<rparr>]) \<and>
   (\<exists>w'. updateTask collab0 ''absent'' patch1 world0 = Done w' \<and> pending w' = [task1])"
proof -
  have a: "setTasks collab0 = Applies" by (simp add: collab0_def)
  have w: "pending world0 = [task1]" "task_id task1 = ''id-''" "p_id patch1 = Some ''other''"
    by (simp_all add: world0_def task1_def patch1_def)
  have s: "(spread task1 patch1)\<lparr>task_id := ''id-''\<rparr> = task1\<lparr>title := ''Updated Task''\<rparr>"
    by (simp add: spread_def merge_def task1_def patch1_def)
  from updateTask_merges_fields [OF a, of "''id-''" patch1 world0]
  obtain w1 where 1: "updateTask collab0 ''id-'' patch1 world0 = Done w1"
    "length (pending w1) = 1" "pending w1 ! 0 = task1\<lparr>title := ''Updated Task''\<rparr>"
    using w s by auto
  from 1(2) 1(3) have "pending w1 = [task1\<lparr>title := ''Updated Task''\<rparr>]"
    by (cases "pending w1") auto
  moreover
  from updateTask_merges_fields [OF a, of "''absent''" patch1 world0]
  obtain w2 where "updateTask collab0 ''absent'' patch1 world0 = Done w2" "pending w2 = [task1]"
    using w by auto
  ultimately show ?thesis using a w 1(1) by blast
qed

subsection \<open>The error policy\<close>

lemma throwing_setTasks:
  "setTasks c = Throws X \<Longrightarrow>
   report (call_setTasks c f w) =
     Done (w\<lparr>setTasks_calls := setTasks_calls w + 1, reported := reported w @ [X]\<rparr>)"
  by (simp add: call_setTasks_def Let_def)

lemma throwing_setCompletedTasks:
  "setCompletedTasks c = Throws X \<Longrightarrow>
   report (call_setCompletedTasks c f w) =
     Done (w\<lparr>setCompletedTasks_calls := setCompletedTasks_calls w + 1,
             reported := reported w @ [X]\<rparr>)"
  by (simp add: call_setCompletedTasks_def Let_def)

lemma report_Done: "\<exists>w'. report r = Done w'"
  by (cases r) simp_all

text \<open>
  C1. In each of \<open>addTask\<close>, \<open>completeTask\<close>, \<open>removeTask\<close> and \<open>updateTask\<close>, when the
  collection updater that the operation calls throws an error with message \<open>X\<close>, the
  error reporter receives exactly \<open>X\<close>, once, and the operation ends normally; indeed
  every one of the four operations always ends normally.
\<close>

theorem updater_error_reported:
  "(setTasks c = Throws X \<longrightarrow>
      (\<exists>w'. addTask c inp w = Done w' \<and> reported w' = reported w @ [X])) \<and>
   (setTasks c = Throws X \<longrightarrow>
      (\<exists>w'. completeTask c t w = Done w' \<and> reported w' = reported w @ [X])) \<and>
   (setTasks c = Applies \<longrightarrow> setCompletedTasks c = Throws X \<longrightarrow>
      (\<exists>w'. completeTask c t w = Done w' \<and> reported w' = reported w @ [X])) \<and>
   (setTasks c = Throws X \<longrightarrow>
      (\<exists>w'. removeTask c i False w = Done w' \<and> reported w' = reported w @ [X])) \<and>
   (setCompletedTasks c = Throws X \<longrightarrow>
      (\<exists>w'. removeTask c i True w = Done w' \<and> reported w' = reported w @ [X])) \<and>
   (setTasks c = Throws X \<longrightarrow>
      (\<exists>w'. updateTask c i u w = Done w' \<and> reported w' = reported w @ [X])) \<and>
   (\<exists>w'. addTask c inp w = Done w') \<and> (\<exists>w'. completeTask c t w = Done w') \<and>
   (\<exists>w'. removeTask c i b w = Done w') \<and> (\<exists>w'. updateTask c i u w = Done w')"
proof (intro conjI impI)
  assume "setTasks c = Throws X"
  then show "\<exists>w'. addTask c inp w = Done w' \<and> reported w' = reported w @ [X]"
    by (simp add: addTask_def Let_def throwing_setTasks)
next
  assume "setTasks c = Throws X"
  then show "\<exists>w'. completeTask c t w = Done w' \<and> reported w' = reported w @ [X]"
    by (simp add: completeTask_def Let_def call_setTasks_def)
next
  assume "setTasks c = Applies" and "setCompletedTasks c = Throws X"
  then show "\<exists>w'. completeTask c t w = Done w' \<and> reported w' = reported w @ [X]"
    by (simp add: completeTask_def Let_def call_setTasks_def throwing_setCompletedTasks)
next
  assume "setTasks c = Throws X"
  then show "\<exists>w'. removeTask c i False w = Done w' \<and> reported w' = reported w @ [X]"
    by (simp add: removeTask_def throwing_setTasks)
next
  assume "setCompletedTasks c = Throws X"
  then show "\<exists>w'. removeTask c i True w = Done w' \<and> reported w' = reported w @ [X]"
    by (simp add: removeTask_def throwing_setCompletedTasks)
next
  assume "setTasks c = Throws X"
  then show "\<exists>w'. updateTask c i u w = Done w' \<and> reported w' = reported w @ [X]"
    by (simp add: updateTask_def throwing_setTasks)
next
  show "\<exists>w'. addTask c inp w = Done w'" unfolding addTask_def by (rule report_Done)
  show "\<exists>w'. completeTask c t w = Done w'" unfolding completeTask_def by (rule report_Done)
  show "\<exists>w'. removeTask c i b w = Done w'" unfolding removeTask_def by (rule report_Done)
  show "\<exists>w'. updateTask c i u w = Done w'" unfolding updateTask_def by (rule report_Done)
qed

text \<open>An instance: a throwing pending updater, and a throwing completed updater.\<close>

theorem updater_error_reported_witness:
  "setTasks thrower = Throws ''Test error'' \<and>
   (\<exists>w'. addTask thrower (Single input1) world0 = Done w' \<and> reported w' = [''Test error'']) \<and>
   (\<exists>w'. completeTask thrower task1 world0 = Done w' \<and> reported w' = [''Test error'']) \<and>
   (\<exists>w'. removeTask thrower ''id-'' False world0 = Done w' \<and> reported w' = [''Test error'']) \<and>
   (\<exists>w'. updateTask thrower ''id-'' patch1 world0 = Done w' \<and> reported w' = [''Test error'']) \<and>
   setTasks thrower2 = Applies \<and> setCompletedTasks thrower2 = Throws ''Completion error'' \<and>
   (\<exists>w'. completeTask thrower2 task1 world0 = Done w' \<and> reported w' = [''Completion error'']) \<and>
   (\<exists>w'. removeTask thrower2 ''id-a'' True world0 = Done w' \<and> reported w' = [''Completion error''])"
proof -
  have a: "setTasks thrower = Throws ''Test error''"
    by (simp add: thrower_def)
  have b: "setTasks thrower2 = Applies" "setCompletedTasks thrower2 = Throws ''Completion error''"
    by (simp_all add: thrower2_def collab0_def)
  have r: "reported world0 = []" by (simp add: world0_def)
  from updater_error_reported [of thrower "''Test error''" "Single input1" world0 task1 "''id-''" patch1 False]
    updater_error_reported [of thrower2 "''Completion error''" "Single input1" world0 task1 "''id-a''" patch1 True]
  show ?thesis using a b r by simp
qed

end
